theory Spec2Isabelle
  imports Main
begin

section \<open>A shallow embedding of the file manager (file\_manager.c)\<close>

text \<open>
  The program edits text files in the current directory through the C standard library.
  This theory embeds its storage primitives, its line-oriented operations and its
  changelog functions as HOL functions over an explicit file system, and states the
  properties of the specification over them.

  Conventions of the embedding.
  \<^item> A C string argument (\<open>const char *\<close>) is the \<open>string\<close> of its characters before the
    terminating zero byte. Names and paths are assumed to fit the fixed buffers the program
    copies them into (\<open>MAX_FILE_NAME_SIZE\<close>, \<open>MAX_FILE_PATH_SIZE\<close>,
    \<open>MAX_LINE_CONTENT_SIZE\<close>).
  \<^item> The C \<open>int\<close> counters \<open>line_count\<close> and \<open>current_line\<close> are HOL integers: the model
    covers files with fewer than \<open>2^31\<close> line breaks.
  \<^item> A value the C code reads without having written it is a parameter of the function
    that reads it: the initial value of the local \<open>current_character\<close> of
    \<open>getNumberOfLinesInFile\<close> (parameter \<open>cc0\<close>), and the bytes that follow the buffer
    returned by \<open>getFileContents\<close> in memory (parameter \<open>mem\<close>).
  \<^item> Every function that returns \<open>FAILURE\<close> in C returns \<open>FAILURE e\<close> here, where
    \<open>e\<close> names the test that failed (the C code reports it on \<open>stderr\<close>).
\<close>

subsection \<open>Constants\<close>

definition EOF :: int where
  "EOF = - 1"

text \<open>The line-break character \<open>'\n'\<close>.\<close>

definition NL :: char where
  "NL = CHR 0x0A"

text \<open>The zero byte that terminates a C string.\<close>

definition NUL :: char where
  "NUL = CHR 0x00"

definition TEMP_FILE_NAME :: string where
  "TEMP_FILE_NAME = ''file.tmp''"





subsection \<open>Status codes\<close>

text \<open>
  \<open>NotFound\<close>: a file to read, remove or append to is missing.
  \<open>AlreadyExists\<close>: the \<open>fileExists\<close> guard of \<open>createFile\<close> or \<open>copyFile\<close> fired.
  \<open>LineOutOfRange\<close>: the line-number test \<open>line_number > line_count || line_number < 1\<close> fired.
  \<open>IOError\<close>: \<open>fopen\<close> for writing or appending (an unwritable path), or \<open>rename\<close>, failed.
\<close>

datatype error = NotFound | AlreadyExists | LineOutOfRange | IOError

datatype status = SUCCESS | FAILURE error

subsection \<open>The file system and the C library calls\<close>

text \<open>
  The file system is the current working directory, a map from absolute paths to file
  contents, and the set \<open>unwritable\<close> of the absolute paths that \<open>fopen\<close> cannot open for
  writing or appending: read-only files, directories, and paths in a directory that is
  missing or not writable. A relative name is resolved against the working directory,
  which the program never changes. An existing file can always be opened for reading, and
  \<open>remove\<close> and \<open>rename\<close> fail only on a missing file.
\<close>

record filesystem =
  cwd :: string
  files :: "string \<rightharpoonup> string"
  unwritable :: "string set"

definition resolve :: "filesystem \<Rightarrow> string \<Rightarrow> string" where
  "resolve w name =
     (case name of
        [] \<Rightarrow> cwd w @ ''/'' @ name
      | c # _ \<Rightarrow> if c = CHR ''/'' then name else cwd w @ ''/'' @ name)"

text \<open>An open stream is the absolute path of its file.\<close>

type_synonym FILE = string

definition fopen :: "filesystem \<Rightarrow> string \<Rightarrow> string \<Rightarrow> (FILE \<times> filesystem) option" where
  "fopen w file_name mode =
     (let p = resolve w file_name in
      if mode = ''r'' \<or> mode = ''rb'' then
        (case files w p of None \<Rightarrow> None | Some _ \<Rightarrow> Some (p, w))
      else if mode = ''w'' then
        (if p \<in> unwritable w then None
         else Some (p, w\<lparr>files := (files w)(p \<mapsto> [])\<rparr>))
      else if mode = ''a'' then
        (if p \<in> unwritable w then None
         else
           (case files w p of
              None \<Rightarrow> Some (p, w\<lparr>files := (files w)(p \<mapsto> [])\<rparr>)
            | Some _ \<Rightarrow> Some (p, w)))
      else None)"

text \<open>The bytes of a stream opened for reading, from the start of the file.\<close>

definition stream_of :: "filesystem \<Rightarrow> FILE \<Rightarrow> string" where
  "stream_of w file = (case files w file of None \<Rightarrow> [] | Some s \<Rightarrow> s)"

text \<open>
  \<open>fclose\<close> of a stream opened with \<open>"w"\<close> or \<open>"a"\<close>, after \<open>written\<close> has been written to it
  with \<open>putc\<close>, \<open>fputs\<close> or \<open>fprintf\<close>: the bytes go to the end of the file.
\<close>

definition fclose_written :: "filesystem \<Rightarrow> FILE \<Rightarrow> string \<Rightarrow> filesystem" where
  "fclose_written w file written = w\<lparr>files := (files w)(file \<mapsto> stream_of w file @ written)\<rparr>"

text \<open>\<open>fgetc\<close> on the rest of a stream; the stream then advances to its tail.\<close>

definition fgetc :: "string \<Rightarrow> int" where
  "fgetc stream = (case stream of [] \<Rightarrow> EOF | c # _ \<Rightarrow> of_char c)"

text \<open>\<open>remove\<close> and \<open>rename\<close> (\<open>True\<close> is C's non-zero result, a failure).\<close>

definition c_remove :: "filesystem \<Rightarrow> string \<Rightarrow> bool \<times> filesystem" where
  "c_remove w file_name =
     (let p = resolve w file_name in
      case files w p of
        None \<Rightarrow> (True, w)
      | Some _ \<Rightarrow> (False, w\<lparr>files := (files w)(p := None)\<rparr>))"

definition c_rename :: "filesystem \<Rightarrow> string \<Rightarrow> string \<Rightarrow> bool \<times> filesystem" where
  "c_rename w old_file_name new_file_name =
     (let p = resolve w old_file_name; q = resolve w new_file_name in
      case files w p of
        None \<Rightarrow> (True, w)
      | Some s \<Rightarrow> (False, w\<lparr>files := ((files w)(p := None))(q \<mapsto> s)\<rparr>))"

text \<open>
  The \<open>%s\<close> conversion of \<open>printf\<close>, applied to a buffer that is followed in memory by the
  bytes \<open>mem\<close>: it prints up to the first zero byte.
\<close>

definition percent_s :: "string \<Rightarrow> string \<Rightarrow> string" where
  "percent_s buffer mem = takeWhile (\<lambda>c. c \<noteq> NUL) (buffer @ mem)"

text \<open>The \<open>%d\<close> conversion of \<open>printf\<close>.\<close>

definition digit_char :: "nat \<Rightarrow> char" where
  "digit_char d = ''0123456789'' ! d"

function dec_digits :: "nat \<Rightarrow> string" where
  "dec_digits n =
     (if n < 10 then [digit_char n] else dec_digits (n div 10) @ [digit_char (n mod 10)])"
  by pat_completeness auto
termination
  by (relation "measure id") auto

definition percent_d :: "int \<Rightarrow> string" where
  "percent_d i = (if i < 0 then CHR ''-'' # dec_digits (nat (- i)) else dec_digits (nat i))"

subsection \<open>Storage primitives\<close>

definition fileExists :: "filesystem \<Rightarrow> string \<Rightarrow> bool" where
  "fileExists w file_name = (files w (resolve w file_name) \<noteq> None)"

definition openFile :: "filesystem \<Rightarrow> string \<Rightarrow> string \<Rightarrow> (FILE \<times> filesystem) option" where
  "openFile w file_name mode = fopen w file_name mode"

definition createFile :: "filesystem \<Rightarrow> string \<Rightarrow> status \<times> filesystem" where
  "createFile w file_name =
     (if fileExists w file_name then (FAILURE AlreadyExists, w)
      else
        (case openFile w file_name ''a'' of
           None \<Rightarrow> (FAILURE IOError, w)
         | Some (file, w1) \<Rightarrow> (SUCCESS, fclose_written w1 file [])))"

definition deleteFile :: "filesystem \<Rightarrow> string \<Rightarrow> status \<times> filesystem" where
  "deleteFile w file_name =
     (case c_remove w file_name of
        (True, w1) \<Rightarrow> (FAILURE NotFound, w1)
      | (False, w1) \<Rightarrow> (SUCCESS, w1))"

definition wrename :: "filesystem \<Rightarrow> string \<Rightarrow> string \<Rightarrow> status \<times> filesystem" where
  "wrename w old_file_name new_file_name =
     (case c_rename w old_file_name new_file_name of
        (True, w1) \<Rightarrow> (FAILURE IOError, w1)
      | (False, w1) \<Rightarrow> (SUCCESS, w1))"

definition getChangelogFileName :: "string \<Rightarrow> string" where
  "getChangelogFileName file_name = file_name @ ''.changelog''"

subsection \<open>Counting and validating lines\<close>

text \<open>
  The loop of \<open>getNumberOfLinesInFile\<close>. Its test \<open>current_character != EOF\<close> comes before
  the \<open>fgetc\<close> of the body, so the first test reads the local as it was declared, without
  an initial value.
\<close>

function getNumberOfLinesInFile_loop :: "int \<Rightarrow> int \<Rightarrow> string \<Rightarrow> int" where
  "getNumberOfLinesInFile_loop current_character line_count stream =
     (if current_character \<noteq> EOF then
        (let c = fgetc stream
         in getNumberOfLinesInFile_loop c
              (if c = of_char NL then line_count + 1 else line_count) (tl stream))
      else line_count)"
  by pat_completeness auto
termination
  by (relation "measure (\<lambda>(cc, lc, s). length s + (if cc = EOF then 0 else 1))")
     (auto simp: fgetc_def split: list.splits)

definition getNumberOfLinesInFile :: "int \<Rightarrow> string \<Rightarrow> int" where
  "getNumberOfLinesInFile cc0 stream = getNumberOfLinesInFile_loop cc0 0 stream"

definition validateLineNumber :: "int \<Rightarrow> string \<Rightarrow> int \<Rightarrow> status" where
  "validateLineNumber cc0 stream line_number =
     (let line_count = getNumberOfLinesInFile cc0 stream in
      if line_number > line_count \<or> line_number < 1 then FAILURE LineOutOfRange
      else SUCCESS)"

subsection \<open>Whole-file operations\<close>

text \<open>
  \<open>getFileContents\<close> returns a buffer of exactly \<open>size_of_file\<close> bytes filled by \<open>fread\<close>;
  no terminating zero byte is stored after them.
\<close>

definition getFileContents :: "filesystem \<Rightarrow> FILE \<Rightarrow> string" where
  "getFileContents w file = stream_of w file"

definition copyFile :: "filesystem \<Rightarrow> string \<Rightarrow> string \<Rightarrow> string \<Rightarrow> status \<times> filesystem" where
  "copyFile w mem source_file_name new_file_name =
     (if fileExists w new_file_name then (FAILURE AlreadyExists, w)
      else
        (case openFile w source_file_name ''r'' of
           None \<Rightarrow> (FAILURE NotFound, w)
         | Some (source_file, w1) \<Rightarrow>
             (case createFile w1 new_file_name of
                (FAILURE e, w2) \<Rightarrow> (FAILURE e, w2)
              | (SUCCESS, w2) \<Rightarrow>
                  (let file_contents = getFileContents w2 source_file in
                   case openFile w2 new_file_name ''w'' of
                     None \<Rightarrow> (FAILURE IOError, w2)
                   | Some (new_file, w3) \<Rightarrow>
                       (SUCCESS, fclose_written w3 new_file (percent_s file_contents mem))))))"

definition appendLineToFile :: "filesystem \<Rightarrow> string \<Rightarrow> string \<Rightarrow> status \<times> filesystem" where
  "appendLineToFile w file_name content =
     (if \<not> fileExists w file_name then (FAILURE NotFound, w)
      else
        (case openFile w file_name ''a'' of
           None \<Rightarrow> (FAILURE IOError, w)
         | Some (file, w1) \<Rightarrow> (SUCCESS, fclose_written w1 file (content @ [NL]))))"

text \<open>\<open>displayFile\<close> returns its status and what it prints on \<open>stdout\<close>.\<close>

definition displayFile :: "filesystem \<Rightarrow> string \<Rightarrow> string \<Rightarrow> status \<times> string" where
  "displayFile w mem file_name =
     (case openFile w file_name ''rb'' of
        None \<Rightarrow> (FAILURE NotFound, [])
      | Some (file, w1) \<Rightarrow>
          (let file_contents = getFileContents w1 file in
           (SUCCESS, ''Contents of file:'' @ [NL] @ percent_s file_contents mem)))"

subsection \<open>Line-oriented operations\<close>

text \<open>
  The three character loops share one shape: \<open>current_character\<close> holds the character
  read last, the body handles it, reads the next one, and increments \<open>current_line\<close>
  when the character just read is a line break.
\<close>

function insertLine_loop :: "string \<Rightarrow> int \<Rightarrow> int \<Rightarrow> int \<Rightarrow> string \<Rightarrow> string \<Rightarrow> string" where
  "insertLine_loop content line_number current_line current_character stream temp_file =
     (if current_character \<noteq> EOF then
        (let temp1 =
               (if current_line \<noteq> line_number then temp_file @ [char_of current_character]
                else (if line_number \<noteq> 1 then temp_file @ [NL] else temp_file) @ content @ [NL]);
             line1 = (if current_line \<noteq> line_number then current_line else current_line + 1);
             c = fgetc stream;
             line2 = (if c = of_char NL then line1 + 1 else line1)
         in insertLine_loop content line_number line2 c (tl stream) temp1)
      else temp_file)"
  by pat_completeness auto
termination
  by (relation "measure (\<lambda>(ct, n, l, cc, s, t). length s + (if cc = EOF then 0 else 1))")
     (auto simp: fgetc_def split: list.splits)

definition insertLineInFile ::
  "filesystem \<Rightarrow> int \<Rightarrow> string \<Rightarrow> string \<Rightarrow> int \<Rightarrow> status \<times> filesystem" where
  "insertLineInFile w cc0 file_name content line_number =
     (case openFile w file_name ''r'' of
        None \<Rightarrow> (FAILURE NotFound, w)
      | Some (file, w1) \<Rightarrow>
          (let line_count = getNumberOfLinesInFile cc0 (stream_of w1 file) in
           if line_number > line_count \<or> line_number < 1 then (FAILURE LineOutOfRange, w1)
           else
             (case openFile w1 TEMP_FILE_NAME ''w'' of
                None \<Rightarrow> (FAILURE IOError, w1)
              | Some (temp_file, w2) \<Rightarrow>
                  (let stream = stream_of w2 file;
                       written = insertLine_loop content line_number 1 (fgetc stream) (tl stream) [];
                       w3 = fclose_written w2 temp_file written
                   in case deleteFile w3 file_name of
                        (FAILURE e, w4) \<Rightarrow> (FAILURE e, snd (deleteFile w4 TEMP_FILE_NAME))
                      | (SUCCESS, w4) \<Rightarrow>
                          (case wrename w4 TEMP_FILE_NAME file_name of
                             (FAILURE e, w5) \<Rightarrow> (FAILURE e, w5)
                           | (SUCCESS, w5) \<Rightarrow> (SUCCESS, w5))))))"

function showLine_loop :: "int \<Rightarrow> int \<Rightarrow> int \<Rightarrow> string \<Rightarrow> string \<Rightarrow> string" where
  "showLine_loop line_number current_line current_character stream printed =
     (if current_character \<noteq> EOF then
        (let printed1 =
               (if current_line = line_number \<and> current_character \<noteq> of_char NL
                then printed @ [char_of current_character] else printed);
             c = fgetc stream;
             line1 = (if c = of_char NL then current_line + 1 else current_line)
         in showLine_loop line_number line1 c (tl stream) printed1)
      else printed)"
  by pat_completeness auto
termination
  by (relation "measure (\<lambda>(n, l, cc, s, t). length s + (if cc = EOF then 0 else 1))")
     (auto simp: fgetc_def split: list.splits)

text \<open>\<open>showLineFromFile\<close> returns its status and what it prints on \<open>stdout\<close>.\<close>

definition showLineFromFile :: "filesystem \<Rightarrow> int \<Rightarrow> string \<Rightarrow> int \<Rightarrow> status \<times> string" where
  "showLineFromFile w cc0 file_name line_number =
     (case openFile w file_name ''r'' of
        None \<Rightarrow> (FAILURE NotFound, [])
      | Some (file, w1) \<Rightarrow>
          (case validateLineNumber cc0 (stream_of w1 file) line_number of
             FAILURE e \<Rightarrow> (FAILURE e, [])
           | SUCCESS \<Rightarrow>
               (let stream = stream_of w1 file in
                (SUCCESS,
                 ''Content at line '' @ percent_d line_number @ '':'' @ [NL]
                   @ showLine_loop line_number 1 (fgetc stream) (tl stream) [] @ [NL]))))"

function deleteLine_loop :: "int \<Rightarrow> int \<Rightarrow> int \<Rightarrow> string \<Rightarrow> string \<Rightarrow> string" where
  "deleteLine_loop line_number current_line current_character stream temp_file =
     (if current_character \<noteq> EOF then
        (let temp1 =
               (if current_line \<noteq> line_number then temp_file @ [char_of current_character]
                else temp_file);
             c = fgetc stream;
             line1 = (if c = of_char NL then current_line + 1 else current_line)
         in deleteLine_loop line_number line1 c (tl stream) temp1)
      else temp_file)"
  by pat_completeness auto
termination
  by (relation "measure (\<lambda>(n, l, cc, s, t). length s + (if cc = EOF then 0 else 1))")
     (auto simp: fgetc_def split: list.splits)

text \<open>
  \<open>deleteLineFromFile\<close> opens the source and then the temporary file, and tests
  \<open>!file || validateLineNumber(file, line_number) || !temp_file\<close> afterwards, from left to
  right.
\<close>

definition deleteLineFromFile :: "filesystem \<Rightarrow> int \<Rightarrow> string \<Rightarrow> int \<Rightarrow> status \<times> filesystem" where
  "deleteLineFromFile w cc0 file_name line_number =
     (case openFile w file_name ''r'' of
        None \<Rightarrow>
          (case openFile w TEMP_FILE_NAME ''w'' of
             None \<Rightarrow> (FAILURE NotFound, w)
           | Some (temp_file, w2) \<Rightarrow> (FAILURE NotFound, w2))
      | Some (file, w1) \<Rightarrow>
          (case openFile w1 TEMP_FILE_NAME ''w'' of
             None \<Rightarrow>
               (case validateLineNumber cc0 (stream_of w1 file) line_number of
                  FAILURE e \<Rightarrow> (FAILURE e, w1)
                | SUCCESS \<Rightarrow> (FAILURE IOError, w1))
           | Some (temp_file, w2) \<Rightarrow>
               (case validateLineNumber cc0 (stream_of w2 file) line_number of
                  FAILURE e \<Rightarrow> (FAILURE e, w2)
                | SUCCESS \<Rightarrow>
                    (let stream = stream_of w2 file;
                         written = deleteLine_loop line_number 1 (fgetc stream) (tl stream) [];
                         w3 = fclose_written w2 temp_file written
                     in case deleteFile w3 file_name of
                          (FAILURE e, w4) \<Rightarrow> (FAILURE e, snd (deleteFile w4 TEMP_FILE_NAME))
                        | (SUCCESS, w4) \<Rightarrow>
                            (case wrename w4 TEMP_FILE_NAME file_name of
                               (FAILURE e, w5) \<Rightarrow> (FAILURE e, w5)
                             | (SUCCESS, w5) \<Rightarrow> (SUCCESS, w5))))))"

subsection \<open>Changelog\<close>

text \<open>
  \<open>showChangelog\<close> and \<open>resetChangelog\<close> build their path with
  \<open>sprintf(changelog_file_path, "changelog/%s", changelog_file_name)\<close>;
  \<open>addActionToChangelog\<close> builds it with \<open>"%s/%s"\<close> from \<open>changelog_directory\<close>.
\<close>

definition showChangelog :: "filesystem \<Rightarrow> string \<Rightarrow> string \<Rightarrow> string \<Rightarrow> status \<times> string" where
  "showChangelog w mem file_name changelog_directory =
     (let changelog_file_name = getChangelogFileName file_name;
          changelog_file_path = ''changelog/'' @ changelog_file_name
      in case displayFile w mem changelog_file_path of
           (FAILURE e, printed) \<Rightarrow> (FAILURE e, printed)
         | (SUCCESS, printed) \<Rightarrow> (SUCCESS, printed))"

definition resetChangelog :: "filesystem \<Rightarrow> string \<Rightarrow> string \<Rightarrow> status \<times> filesystem" where
  "resetChangelog w file_name changelog_directory =
     (let changelog_file_name = getChangelogFileName file_name;
          changelog_file_path = ''changelog/'' @ changelog_file_name
      in case c_remove w changelog_file_path of
           (True, w1) \<Rightarrow> (FAILURE NotFound, w1)
         | (False, w1) \<Rightarrow> (SUCCESS, w1))"



section \<open>Properties\<close>

subsection \<open>Auxiliary facts\<close>

declare getNumberOfLinesInFile_loop.simps [simp del]
declare insertLine_loop.simps [simp del]
declare showLine_loop.simps [simp del]
declare deleteLine_loop.simps [simp del]
declare dec_digits.simps [simp del]

lemma of_char_not_EOF: "(of_char c :: int) \<noteq> EOF"
proof -
  have "(0::int) \<le> of_char c"
    by (metis of_nat_0_le_iff of_nat_of_char)
  then show ?thesis by (simp add: EOF_def)
qed

lemma EOF_not_NL: "EOF \<noteq> of_char NL"
  using of_char_not_EOF [of NL] by simp

lemma fgetc_Nil: "fgetc [] = EOF"
  by (simp add: fgetc_def)

lemma fgetc_Cons: "fgetc (c # cs) = of_char c"
  by (simp add: fgetc_def)

text \<open>When the first test of the counting loop finds \<open>EOF\<close> the body never runs.\<close>

lemma count_loop_EOF: "getNumberOfLinesInFile_loop EOF line_count stream = line_count"
  by (subst getNumberOfLinesInFile_loop.simps) simp

lemma count_loop_Nil:
  "cc \<noteq> EOF \<Longrightarrow> getNumberOfLinesInFile_loop cc line_count [] = line_count"
  by (subst getNumberOfLinesInFile_loop.simps)
     (simp add: fgetc_Nil count_loop_EOF EOF_not_NL Let_def)

lemma count_loop_Cons:
  "cc \<noteq> EOF \<Longrightarrow>
   getNumberOfLinesInFile_loop cc line_count (c # cs) =
   getNumberOfLinesInFile_loop (of_char c) (if c = NL then line_count + 1 else line_count) cs"
  by (subst getNumberOfLinesInFile_loop.simps) (simp add: fgetc_Cons Let_def)

lemma count_loop_count_list:
  "cc \<noteq> EOF \<Longrightarrow>
   getNumberOfLinesInFile_loop cc line_count stream = line_count + int (count_list stream NL)"
proof (induction stream arbitrary: cc line_count)
  case Nil
  then show ?case by (simp add: count_loop_Nil)
next
  case (Cons c cs)
  have "getNumberOfLinesInFile_loop cc line_count (c # cs) =
        getNumberOfLinesInFile_loop (of_char c) (if c = NL then line_count + 1 else line_count) cs"
    using Cons.prems by (rule count_loop_Cons)
  also have "\<dots> = (if c = NL then line_count + 1 else line_count) + int (count_list cs NL)"
    by (rule Cons.IH) (rule of_char_not_EOF)
  finally show ?case by simp
qed

lemma getNumberOfLinesInFile_cases:
  "getNumberOfLinesInFile cc0 stream = (if cc0 = EOF then 0 else int (count_list stream NL))"
  by (simp add: getNumberOfLinesInFile_def count_loop_EOF count_loop_count_list)

subsection \<open>Counting lines\<close>

text \<open>
  Whenever the first test of the loop lets the loop start, \<open>getNumberOfLinesInFile\<close>
  returns the number of line-break characters of the content: a content without line
  breaks counts 0 lines, even when it is not empty, and a final line without a trailing
  line break is not counted.
\<close>

lemma getNumberOfLinesInFile_loop_started:
  "cc0 \<noteq> EOF \<Longrightarrow>
   getNumberOfLinesInFile cc0 content = int (count_list content NL)
   \<and> (NL \<notin> set content \<longrightarrow> getNumberOfLinesInFile cc0 content = 0)
   \<and> (NL \<notin> set last_line \<longrightarrow>
        getNumberOfLinesInFile cc0 (content @ last_line) = getNumberOfLinesInFile cc0 content)"
  by (simp add: getNumberOfLinesInFile_cases count_list_append count_notin)

text \<open>
  C6. The claim says that for every content \<open>getNumberOfLinesInFile\<close> returns exactly the
  number of line-break characters of the content. The function declares
  \<open>int current_character;\<close> without an initial value and tests
  \<open>current_character != EOF\<close> before the first \<open>fgetc\<close>. When the local holds \<open>EOF\<close> on
  entry the body never runs: on the content \<open>x\<close>, line break, \<open>y\<close>, line break, which has
  two line-break characters, the function returns 0.
\<close>

theorem getNumberOfLinesInFile_uninitialised_EOF:
  "getNumberOfLinesInFile EOF ''x\<newline>y\<newline>'' = 0
   \<and> int (count_list ''x\<newline>y\<newline>'' NL) = 2
   \<and> getNumberOfLinesInFile EOF ''x\<newline>y\<newline>'' \<noteq> int (count_list ''x\<newline>y\<newline>'' NL)"
  by (simp add: getNumberOfLinesInFile_cases NL_def)

subsection \<open>Facts about the file system, line validation and formatting\<close>

lemma resolve_files_update [simp]: "resolve (w\<lparr>files := m\<rparr>) name = resolve w name"
  by (simp add: resolve_def split: list.splits)

lemma getNumberOfLinesInFile_bounds:
  "0 \<le> getNumberOfLinesInFile cc0 stream"
  "getNumberOfLinesInFile cc0 stream \<le> int (count_list stream NL)"
  by (simp_all add: getNumberOfLinesInFile_cases)

lemma validateLineNumber_out_of_range:
  "line_number < 1 \<or> line_number > int (count_list s NL) \<Longrightarrow>
   validateLineNumber cc0 s line_number = FAILURE LineOutOfRange"
  using getNumberOfLinesInFile_bounds(2) [of cc0 s]
  by (auto simp: validateLineNumber_def Let_def)

lemma validateLineNumber_empty:
  "validateLineNumber cc0 [] line_number = FAILURE LineOutOfRange"
proof -
  have "line_number < 1 \<or> line_number > int (count_list ([]::string) NL)"
    by (simp add: not_less [symmetric]) linarith
  then show ?thesis by (rule validateLineNumber_out_of_range)
qed

lemma insertLineInFile_out_of_range:
  assumes "files w (resolve w file_name) = Some s"
    and "line_number < 1 \<or> line_number > int (count_list s NL)"
  shows "insertLineInFile w cc0 file_name content line_number = (FAILURE LineOutOfRange, w)"
  using assms getNumberOfLinesInFile_bounds(2) [of cc0 s]
  by (auto simp: insertLineInFile_def openFile_def fopen_def stream_of_def Let_def)

lemma deleteLineFromFile_out_of_range:
  assumes "files w (resolve w file_name) = Some s"
    and "line_number < 1 \<or> line_number > int (count_list s NL)"
  shows "deleteLineFromFile w cc0 file_name line_number =
           (FAILURE LineOutOfRange,
            if resolve w TEMP_FILE_NAME \<in> unwritable w then w
            else w\<lparr>files := (files w)(resolve w TEMP_FILE_NAME \<mapsto> [])\<rparr>)"
proof (cases "resolve w TEMP_FILE_NAME = resolve w file_name")
  case True
  with assms show ?thesis
    by (simp add: deleteLineFromFile_def openFile_def fopen_def stream_of_def Let_def
        validateLineNumber_empty validateLineNumber_out_of_range)
next
  case False
  with assms show ?thesis
    by (simp add: deleteLineFromFile_def openFile_def fopen_def stream_of_def Let_def
        validateLineNumber_out_of_range)
qed

lemma showLineFromFile_out_of_range:
  assumes "files w (resolve w file_name) = Some s"
    and "line_number < 1 \<or> line_number > int (count_list s NL)"
  shows "showLineFromFile w cc0 file_name line_number = (FAILURE LineOutOfRange, [])"
  using assms
  by (simp add: showLineFromFile_def openFile_def fopen_def stream_of_def Let_def
        validateLineNumber_out_of_range)






lemma appendLineToFile_existing:
  "files w (resolve w file_name) = Some s \<Longrightarrow> resolve w file_name \<notin> unwritable w \<Longrightarrow>
   appendLineToFile w file_name content =
     (SUCCESS, w\<lparr>files := (files w)(resolve w file_name \<mapsto> s @ content @ [NL])\<rparr>)"
  by (simp add: appendLineToFile_def fileExists_def openFile_def fopen_def fclose_written_def
      stream_of_def Let_def)

lemma appendLineToFile_unwritable:
  "files w (resolve w file_name) = Some s \<Longrightarrow> resolve w file_name \<in> unwritable w \<Longrightarrow>
   appendLineToFile w file_name content = (FAILURE IOError, w)"
  by (simp add: appendLineToFile_def fileExists_def openFile_def fopen_def)

lemma appendLineToFile_missing:
  "files w (resolve w file_name) = None \<Longrightarrow>
   appendLineToFile w file_name content = (FAILURE NotFound, w)"
  by (simp add: appendLineToFile_def fileExists_def)







subsection \<open>Line numbers out of range\<close>

text \<open>
  C5. For every existing file, \<open>insertLineInFile\<close>, \<open>deleteLineFromFile\<close> and
  \<open>showLineFromFile\<close> fail with \<open>LineOutOfRange\<close> for every line number below 1 or above
  the number of line breaks of the file (so for 0, for the line count plus one, and for
  every negative number), whatever the counting loop finds in its uninitialised local.
  For an empty file every line number is out of range: \<open>insertLineInFile\<close> fails for
  every line number and every content and leaves the file system as it was, so no line
  can be inserted into an empty file.
\<close>

theorem line_number_out_of_range_fails:
  "files w (resolve w file_name) = Some s \<Longrightarrow>
   line_number < 1 \<or> line_number > int (count_list s NL) \<Longrightarrow>
   fst (insertLineInFile w cc0 file_name content line_number) = FAILURE LineOutOfRange
   \<and> fst (deleteLineFromFile w cc0 file_name line_number) = FAILURE LineOutOfRange
   \<and> fst (showLineFromFile w cc0 file_name line_number) = FAILURE LineOutOfRange
   \<and> (s = [] \<longrightarrow>
        (\<forall>n c. insertLineInFile w cc0 file_name c n = (FAILURE LineOutOfRange, w)))"
proof -
  assume f: "files w (resolve w file_name) = Some s"
    and r: "line_number < 1 \<or> line_number > int (count_list s NL)"
  have "insertLineInFile w cc0 file_name c n = (FAILURE LineOutOfRange, w)" if "s = []" for n c
  proof -
    have "n < 1 \<or> n > int (count_list s NL)" using that by auto
    with f show ?thesis by (rule insertLineInFile_out_of_range)
  qed
  then show ?thesis
    using f r
    by (simp add: insertLineInFile_out_of_range deleteLineFromFile_out_of_range
        showLineFromFile_out_of_range)
qed

theorem line_number_out_of_range_fails_witness:
  "fst (insertLineInFile \<lparr>cwd = ''/d'', files = [''/d/a.txt'' \<mapsto> []], unwritable = {}\<rparr> 0 ''a.txt'' ''hello'' 1)
     = FAILURE LineOutOfRange
   \<and> fst (deleteLineFromFile \<lparr>cwd = ''/d'', files = [''/d/a.txt'' \<mapsto> []], unwritable = {}\<rparr> 0 ''a.txt'' 1)
     = FAILURE LineOutOfRange
   \<and> fst (showLineFromFile \<lparr>cwd = ''/d'', files = [''/d/a.txt'' \<mapsto> []], unwritable = {}\<rparr> 0 ''a.txt'' 1)
     = FAILURE LineOutOfRange
   \<and> (\<forall>n c. insertLineInFile \<lparr>cwd = ''/d'', files = [''/d/a.txt'' \<mapsto> []], unwritable = {}\<rparr> 0 ''a.txt'' c n
        = (FAILURE LineOutOfRange, \<lparr>cwd = ''/d'', files = [''/d/a.txt'' \<mapsto> []], unwritable = {}\<rparr>))"
proof -
  let ?w = "\<lparr>cwd = ''/d'', files = [''/d/a.txt'' \<mapsto> []], unwritable = {}\<rparr>"
  have f: "files ?w (resolve ?w ''a.txt'') = Some []"
    by (simp add: resolve_def)
  have r: "(1::int) < 1 \<or> 1 > int (count_list ([]::string) NL)"
    by simp
  show ?thesis
    using line_number_out_of_range_fails [OF f r, of 0 "''hello''"] by simp
qed

subsection \<open>Appending a line\<close>

text \<open>
  C9, as stated: for every existing file and every content \<open>appendLineToFile\<close> succeeds,
  and \<open>getNumberOfLinesInFile\<close> of the file then increases by one. Neither holds for every
  file. \<open>appendLineToFile\<close> tests the result of \<open>openFile(file_name, "a")\<close> and returns
  \<open>FAILURE\<close> when the file cannot be opened for appending: an existing read-only file is
  left unchanged. And when the counting loop does not start (C6), \<open>getNumberOfLinesInFile\<close>
  returns 0 before and after the append.
\<close>

theorem appendLineToFile_existing_file_can_fail:
  "fileExists \<lparr>cwd = ''/d'', files = [''/d/a.txt'' \<mapsto> ''x\<newline>y''], unwritable = {''/d/a.txt''}\<rparr> ''a.txt''
   \<and> fst (appendLineToFile \<lparr>cwd = ''/d'', files = [''/d/a.txt'' \<mapsto> ''x\<newline>y''], unwritable = {''/d/a.txt''}\<rparr> ''a.txt'' ''hello'') = FAILURE IOError
   \<and> files (snd (appendLineToFile \<lparr>cwd = ''/d'', files = [''/d/a.txt'' \<mapsto> ''x\<newline>y''], unwritable = {''/d/a.txt''}\<rparr> ''a.txt'' ''hello'')) ''/d/a.txt'' = Some ''x\<newline>y''
   \<and> fst (appendLineToFile \<lparr>cwd = ''/d'', files = [''/d/a.txt'' \<mapsto> ''x\<newline>y''], unwritable = {}\<rparr> ''a.txt'' ''hello'') = SUCCESS
   \<and> files (snd (appendLineToFile \<lparr>cwd = ''/d'', files = [''/d/a.txt'' \<mapsto> ''x\<newline>y''], unwritable = {}\<rparr> ''a.txt'' ''hello'')) ''/d/a.txt'' = Some ''x\<newline>yhello\<newline>''
   \<and> getNumberOfLinesInFile EOF ''x\<newline>yhello\<newline>'' = getNumberOfLinesInFile EOF ''x\<newline>y''"
  by code_simp

text \<open>
  C9, amended. For every existing file that can be opened for appending and every content,
  \<open>appendLineToFile\<close> succeeds and the file becomes its former bytes followed by the
  content and one line break; no other file changes. Hence, when the content has no line
  break, the number of line-break characters of the file increases by exactly one, and so
  does \<open>getNumberOfLinesInFile\<close> whenever its loop starts. For an existing file that cannot
  be opened for appending, \<open>appendLineToFile\<close> fails and the file system is unchanged.
  When the file does not exist, \<open>appendLineToFile\<close> fails and the file system is
  unchanged: the file is not created.
\<close>

theorem appendLineToFile_appends_one_line:
  "(files w (resolve w file_name) = Some s \<and> resolve w file_name \<notin> unwritable w \<longrightarrow>
      appendLineToFile w file_name content =
        (SUCCESS, w\<lparr>files := (files w)(resolve w file_name \<mapsto> s @ content @ [NL])\<rparr>)
      \<and> (NL \<notin> set content \<longrightarrow>
           count_list (s @ content @ [NL]) NL = count_list s NL + 1
           \<and> (cc0 \<noteq> EOF \<longrightarrow>
                getNumberOfLinesInFile cc0 (s @ content @ [NL])
                  = getNumberOfLinesInFile cc0 s + 1)))
   \<and> (files w (resolve w file_name) = Some s \<and> resolve w file_name \<in> unwritable w \<longrightarrow>
        appendLineToFile w file_name content = (FAILURE IOError, w))
   \<and> (files w (resolve w file_name) = None \<longrightarrow>
        appendLineToFile w file_name content = (FAILURE NotFound, w))"
  by (simp add: appendLineToFile_existing appendLineToFile_unwritable appendLineToFile_missing
      getNumberOfLinesInFile_cases count_list_append count_notin)

theorem appendLineToFile_appends_one_line_witness:
  "appendLineToFile \<lparr>cwd = ''/d'', files = [''/d/a.txt'' \<mapsto> ''x\<newline>y''], unwritable = {}\<rparr> ''a.txt'' ''hello'' =
     (SUCCESS, \<lparr>cwd = ''/d'', files = [''/d/a.txt'' \<mapsto> ''x\<newline>yhello\<newline>''], unwritable = {}\<rparr>)
   \<and> count_list ''x\<newline>yhello\<newline>'' NL = count_list ''x\<newline>y'' NL + 1
   \<and> getNumberOfLinesInFile 0 ''x\<newline>yhello\<newline>'' = getNumberOfLinesInFile 0 ''x\<newline>y'' + 1
   \<and> appendLineToFile \<lparr>cwd = ''/d'', files = [''/d/a.txt'' \<mapsto> ''x\<newline>y''], unwritable = {''/d/a.txt''}\<rparr> ''a.txt'' ''hello'' =
     (FAILURE IOError, \<lparr>cwd = ''/d'', files = [''/d/a.txt'' \<mapsto> ''x\<newline>y''], unwritable = {''/d/a.txt''}\<rparr>)
   \<and> appendLineToFile \<lparr>cwd = ''/d'', files = [''/d/a.txt'' \<mapsto> ''x\<newline>y''], unwritable = {}\<rparr> ''b.txt'' ''hello'' =
     (FAILURE NotFound, \<lparr>cwd = ''/d'', files = [''/d/a.txt'' \<mapsto> ''x\<newline>y''], unwritable = {}\<rparr>)"
proof -
  let ?w = "\<lparr>cwd = ''/d'', files = [''/d/a.txt'' \<mapsto> ''x\<newline>y''], unwritable = {}\<rparr>"
  let ?ro = "\<lparr>cwd = ''/d'', files = [''/d/a.txt'' \<mapsto> ''x\<newline>y''], unwritable = {''/d/a.txt''}\<rparr>"
  have a: "files ?w (resolve ?w ''a.txt'') = Some ''x\<newline>y'' \<and> resolve ?w ''a.txt'' \<notin> unwritable ?w"
    by (simp add: resolve_def)
  have b: "files ?w (resolve ?w ''b.txt'') = None"
    by (simp add: resolve_def)
  have c: "files ?ro (resolve ?ro ''a.txt'') = Some ''x\<newline>y'' \<and> resolve ?ro ''a.txt'' \<in> unwritable ?ro"
    by (simp add: resolve_def)
  have n: "NL \<notin> set ''hello''" by (simp add: NL_def)
  have e: "(0::int) \<noteq> EOF" by (simp add: EOF_def)
  have r: "resolve ?w ''a.txt'' = ''/d/a.txt''" by (simp add: resolve_def)
  have t1: "appendLineToFile ?w ''a.txt'' ''hello'' = (SUCCESS, \<lparr>cwd = ''/d'', files = [''/d/a.txt'' \<mapsto> ''x\<newline>yhello\<newline>''], unwritable = {}\<rparr>)
      \<and> count_list ''x\<newline>yhello\<newline>'' NL = count_list ''x\<newline>y'' NL + 1
      \<and> getNumberOfLinesInFile 0 ''x\<newline>yhello\<newline>'' = getNumberOfLinesInFile 0 ''x\<newline>y'' + 1"
    using appendLineToFile_appends_one_line [of ?w "''a.txt''" "''x\<newline>y''" "''hello''" 0] a n e r
    by (simp add: NL_def)
  have t2: "appendLineToFile ?ro ''a.txt'' ''hello'' = (FAILURE IOError, ?ro)"
    using appendLineToFile_appends_one_line [of ?ro "''a.txt''" "''x\<newline>y''" "''hello''" 0] c
    by blast
  have t3: "appendLineToFile ?w ''b.txt'' ''hello'' = (FAILURE NotFound, ?w)"
    using appendLineToFile_appends_one_line [of ?w "''b.txt''" "[]" "''hello''" 0] b
    by blast
  from t1 t2 t3 show ?thesis by simp
qed

subsection \<open>The changelog\<close>

text \<open>
  C10. \<open>resetChangelog\<close> and \<open>showChangelog\<close> never read their \<open>changelog_directory\<close>
  argument: for any two values of it their results and their effects on the file system
  are the same, and both work on the fixed relative path
  \<open>changelog/<file_name>.changelog\<close>.
\<close>

theorem changelog_directory_ignored:
  "resetChangelog w file_name d1 = resetChangelog w file_name d2
   \<and> showChangelog w mem file_name d1 = showChangelog w mem file_name d2
   \<and> resetChangelog w file_name d1 =
       (case c_remove w (''changelog/'' @ file_name @ ''.changelog'') of
          (True, w1) \<Rightarrow> (FAILURE NotFound, w1)
        | (False, w1) \<Rightarrow> (SUCCESS, w1))
   \<and> showChangelog w mem file_name d1 =
       displayFile w mem (''changelog/'' @ file_name @ ''.changelog'')"
  by (simp add: resetChangelog_def showChangelog_def getChangelogFileName_def Let_def
      split: prod.splits status.splits)



subsection \<open>What the three character loops compute\<close>

text \<open>
  The loops increment \<open>current_line\<close> when they read a line break, before they handle it:
  a line break is handled as the first character of the line that follows it. The first
  character of the file is read before the loop and never increments the counter.
  The lemmas below give the result of each loop: after the target line
  (\<open>_after\<close>), on it (\<open>_at_line\<close>), and from a line before it (\<open>_before\<close>).
\<close>

lemma insertLine_loop_EOF: "insertLine_loop content n l EOF s t = t"
  by (subst insertLine_loop.simps) simp

lemma insertLine_loop_other:
  "l \<noteq> n \<Longrightarrow>
   insertLine_loop content n l (of_char c) s t =
   insertLine_loop content n (if fgetc s = of_char NL then l + 1 else l) (fgetc s) (tl s) (t @ [c])"
  by (subst insertLine_loop.simps) (simp add: of_char_not_EOF Let_def)

lemma insertLine_loop_at:
  "insertLine_loop content n n (of_char c) s t =
   insertLine_loop content n (if fgetc s = of_char NL then n + 1 + 1 else n + 1) (fgetc s) (tl s)
     ((if n \<noteq> 1 then t @ [NL] else t) @ content @ [NL])"
  by (subst insertLine_loop.simps) (simp add: of_char_not_EOF Let_def)

lemma insertLine_loop_after:
  "n < l \<Longrightarrow> insertLine_loop content n l (fgetc s) (tl s) t = t @ s"
proof (induction s arbitrary: l t)
  case Nil
  then show ?case by (simp add: fgetc_Nil insertLine_loop_EOF)
next
  case (Cons c s)
  have "insertLine_loop content n l (fgetc (c # s)) (tl (c # s)) t =
        insertLine_loop content n (if fgetc s = of_char NL then l + 1 else l) (fgetc s) (tl s) (t @ [c])"
    using Cons.prems by (simp add: fgetc_Cons insertLine_loop_other)
  also have "\<dots> = (t @ [c]) @ s"
    using Cons.prems by (intro Cons.IH) simp
  finally show ?case by simp
qed

lemma insertLine_loop_at_line:
  "insertLine_loop content n n (of_char c) s t =
   (if n \<noteq> 1 then t @ [NL] else t) @ content @ [NL] @ s"
proof -
  have "n < (if fgetc s = of_char NL then n + 1 + 1 else n + 1)" by simp
  then show ?thesis
    by (simp only: insertLine_loop_at insertLine_loop_after) simp
qed

lemma insertLine_loop_before:
  "l < n \<Longrightarrow> 1 \<le> l \<Longrightarrow> count_list pre NL = nat (n - l - 1) \<Longrightarrow>
   insertLine_loop content n l (of_char c) (pre @ NL # post) t =
   t @ c # pre @ NL # content @ NL # post"
proof (induction pre arbitrary: c l t)
  case Nil
  then have l: "l + 1 = n" by simp
  have "insertLine_loop content n l (of_char c) ([] @ NL # post) t =
        insertLine_loop content n n (of_char NL) post (t @ [c])"
    using Nil.prems l by (simp add: insertLine_loop_other fgetc_Cons)
  also have "\<dots> = ((t @ [c]) @ [NL]) @ content @ [NL] @ post"
    using Nil.prems l by (simp only: insertLine_loop_at_line) simp
  finally show ?case by simp
next
  case (Cons d pre)
  show ?case
  proof (cases "d = NL")
    case True
    with Cons.prems have c: "count_list pre NL = nat (n - (l + 1) - 1)" and l: "l + 1 < n"
      by auto
    have "insertLine_loop content n l (of_char c) ((d # pre) @ NL # post) t =
          insertLine_loop content n (l + 1) (of_char d) (pre @ NL # post) (t @ [c])"
      using Cons.prems True by (simp add: insertLine_loop_other fgetc_Cons)
    also have "\<dots> = (t @ [c]) @ d # pre @ NL # content @ NL # post"
      using l c Cons.prems by (intro Cons.IH) simp_all
    finally show ?thesis by simp
  next
    case False
    with Cons.prems have c: "count_list pre NL = nat (n - l - 1)"
      by auto
    have "insertLine_loop content n l (of_char c) ((d # pre) @ NL # post) t =
          insertLine_loop content n l (of_char d) (pre @ NL # post) (t @ [c])"
      using Cons.prems False by (simp add: insertLine_loop_other fgetc_Cons)
    also have "\<dots> = (t @ [c]) @ d # pre @ NL # content @ NL # post"
      using c Cons.prems by (intro Cons.IH) simp_all
    finally show ?thesis by simp
  qed
qed

lemma deleteLine_loop_EOF: "deleteLine_loop n l EOF s t = t"
  by (subst deleteLine_loop.simps) simp

lemma deleteLine_loop_step:
  "deleteLine_loop n l (of_char c) s t =
   deleteLine_loop n (if fgetc s = of_char NL then l + 1 else l) (fgetc s) (tl s)
     (if l \<noteq> n then t @ [c] else t)"
  by (subst deleteLine_loop.simps) (simp add: of_char_not_EOF Let_def)

lemma deleteLine_loop_after:
  "n < l \<Longrightarrow> deleteLine_loop n l (fgetc s) (tl s) t = t @ s"
proof (induction s arbitrary: l t)
  case Nil
  then show ?case by (simp add: fgetc_Nil deleteLine_loop_EOF)
next
  case (Cons c s)
  have "deleteLine_loop n l (fgetc (c # s)) (tl (c # s)) t =
        deleteLine_loop n (if fgetc s = of_char NL then l + 1 else l) (fgetc s) (tl s) (t @ [c])"
    using Cons.prems by (simp add: fgetc_Cons deleteLine_loop_step)
  also have "\<dots> = (t @ [c]) @ s"
    using Cons.prems by (intro Cons.IH) simp
  finally show ?case by simp
qed

lemma deleteLine_loop_at_line:
  "NL \<notin> set mid \<Longrightarrow>
   deleteLine_loop n n (of_char c) (mid @ NL # post) t = t @ NL # post"
proof (induction mid arbitrary: c)
  case Nil
  have "deleteLine_loop n n (of_char c) ([] @ NL # post) t =
        deleteLine_loop n (n + 1) (fgetc (NL # post)) (tl (NL # post)) t"
    by (simp add: deleteLine_loop_step fgetc_Cons)
  also have "\<dots> = t @ NL # post"
    by (rule deleteLine_loop_after) simp
  finally show ?case by simp
next
  case (Cons d mid)
  then have d: "d \<noteq> NL" and m: "NL \<notin> set mid" by auto
  have "deleteLine_loop n n (of_char c) ((d # mid) @ NL # post) t =
        deleteLine_loop n n (of_char d) (mid @ NL # post) t"
    using d by (simp add: deleteLine_loop_step fgetc_Cons)
  also have "\<dots> = t @ NL # post"
    using m by (rule Cons.IH)
  finally show ?case .
qed

lemma deleteLine_loop_before:
  "l < n \<Longrightarrow> count_list pre NL = nat (n - l - 1) \<Longrightarrow> NL \<notin> set mid \<Longrightarrow>
   deleteLine_loop n l (of_char c) (pre @ NL # mid @ NL # post) t = t @ c # pre @ NL # post"
proof (induction pre arbitrary: c l t)
  case Nil
  then have l: "l + 1 = n" by simp
  have "deleteLine_loop n l (of_char c) ([] @ NL # mid @ NL # post) t =
        deleteLine_loop n n (of_char NL) (mid @ NL # post) (t @ [c])"
    using Nil.prems l by (simp add: deleteLine_loop_step fgetc_Cons)
  also have "\<dots> = (t @ [c]) @ NL # post"
    using Nil.prems(3) by (rule deleteLine_loop_at_line)
  finally show ?case by simp
next
  case (Cons d pre)
  show ?case
  proof (cases "d = NL")
    case True
    with Cons.prems have c: "count_list pre NL = nat (n - (l + 1) - 1)" and l: "l + 1 < n"
      by auto
    have "deleteLine_loop n l (of_char c) ((d # pre) @ NL # mid @ NL # post) t =
          deleteLine_loop n (l + 1) (of_char d) (pre @ NL # mid @ NL # post) (t @ [c])"
      using Cons.prems True by (simp add: deleteLine_loop_step fgetc_Cons)
    also have "\<dots> = (t @ [c]) @ d # pre @ NL # post"
      using l c Cons.prems(3) by (rule Cons.IH)
    finally show ?thesis by simp
  next
    case False
    with Cons.prems have c: "count_list pre NL = nat (n - l - 1)"
      by auto
    have "deleteLine_loop n l (of_char c) ((d # pre) @ NL # mid @ NL # post) t =
          deleteLine_loop n l (of_char d) (pre @ NL # mid @ NL # post) (t @ [c])"
      using Cons.prems False by (simp add: deleteLine_loop_step fgetc_Cons)
    also have "\<dots> = (t @ [c]) @ d # pre @ NL # post"
      using Cons.prems(1) c Cons.prems(3) by (rule Cons.IH)
    finally show ?thesis by simp
  qed
qed

lemma showLine_loop_EOF: "showLine_loop n l EOF s t = t"
  by (subst showLine_loop.simps) simp

lemma showLine_loop_step:
  "showLine_loop n l (of_char c) s t =
   showLine_loop n (if fgetc s = of_char NL then l + 1 else l) (fgetc s) (tl s)
     (if l = n \<and> c \<noteq> NL then t @ [c] else t)"
  by (subst showLine_loop.simps) (simp add: of_char_not_EOF Let_def)

lemma showLine_loop_after:
  "n < l \<Longrightarrow> showLine_loop n l (fgetc s) (tl s) t = t"
proof (induction s arbitrary: l)
  case Nil
  then show ?case by (simp add: fgetc_Nil showLine_loop_EOF)
next
  case (Cons c s)
  have "showLine_loop n l (fgetc (c # s)) (tl (c # s)) t =
        showLine_loop n (if fgetc s = of_char NL then l + 1 else l) (fgetc s) (tl s) t"
    using Cons.prems by (simp add: fgetc_Cons showLine_loop_step)
  also have "\<dots> = t"
    using Cons.prems by (intro Cons.IH) simp
  finally show ?case .
qed

lemma showLine_loop_at_line:
  "NL \<notin> set mid \<Longrightarrow>
   showLine_loop n n (of_char c) (mid @ NL # post) t = t @ (if c = NL then [] else [c]) @ mid"
proof (induction mid arbitrary: c t)
  case Nil
  have "showLine_loop n n (of_char c) ([] @ NL # post) t =
        showLine_loop n (n + 1) (fgetc (NL # post)) (tl (NL # post))
          (if c \<noteq> NL then t @ [c] else t)"
    by (simp add: showLine_loop_step fgetc_Cons)
  also have "\<dots> = (if c \<noteq> NL then t @ [c] else t)"
    by (rule showLine_loop_after) simp
  finally show ?case by simp
next
  case (Cons d mid)
  then have d: "d \<noteq> NL" and m: "NL \<notin> set mid" by auto
  have "showLine_loop n n (of_char c) ((d # mid) @ NL # post) t =
        showLine_loop n n (of_char d) (mid @ NL # post) (if c \<noteq> NL then t @ [c] else t)"
    using d by (simp add: showLine_loop_step fgetc_Cons)
  also have "\<dots> = (if c \<noteq> NL then t @ [c] else t) @ (if d = NL then [] else [d]) @ mid"
    using m by (rule Cons.IH)
  finally show ?case using d by simp
qed

lemma showLine_loop_before:
  "l < n \<Longrightarrow> count_list pre NL = nat (n - l - 1) \<Longrightarrow> NL \<notin> set mid \<Longrightarrow>
   showLine_loop n l (of_char c) (pre @ NL # mid @ NL # post) t = t @ mid"
proof (induction pre arbitrary: c l)
  case Nil
  then have l: "l + 1 = n" by simp
  have "showLine_loop n l (of_char c) ([] @ NL # mid @ NL # post) t =
        showLine_loop n n (of_char NL) (mid @ NL # post) t"
    using Nil.prems l by (simp add: showLine_loop_step fgetc_Cons)
  also have "\<dots> = t @ (if NL = NL then [] else [NL]) @ mid"
    using Nil.prems(3) by (rule showLine_loop_at_line)
  finally show ?case by simp
next
  case (Cons d pre)
  show ?case
  proof (cases "d = NL")
    case True
    with Cons.prems have c: "count_list pre NL = nat (n - (l + 1) - 1)" and l: "l + 1 < n"
      by auto
    have "showLine_loop n l (of_char c) ((d # pre) @ NL # mid @ NL # post) t =
          showLine_loop n (l + 1) (of_char d) (pre @ NL # mid @ NL # post) t"
      using Cons.prems True by (simp add: showLine_loop_step fgetc_Cons)
    also have "\<dots> = t @ mid"
      using l c Cons.prems(3) by (rule Cons.IH)
    finally show ?thesis .
  next
    case False
    with Cons.prems have c: "count_list pre NL = nat (n - l - 1)"
      by auto
    have "showLine_loop n l (of_char c) ((d # pre) @ NL # mid @ NL # post) t =
          showLine_loop n l (of_char d) (pre @ NL # mid @ NL # post) t"
      using Cons.prems False by (simp add: showLine_loop_step fgetc_Cons)
    also have "\<dots> = t @ mid"
      using Cons.prems(1) c Cons.prems(3) by (rule Cons.IH)
    finally show ?thesis .
  qed
qed

subsection \<open>What the line operations do to a file\<close>

text \<open>The tail shared by the two rewrite operations: remove the source, rename the scratch file.\<close>

lemma replace_by_scratch:
  assumes "p \<noteq> t" and "files w p = Some s" and "resolve w file_name = p"
    and "resolve w TEMP_FILE_NAME = t"
  shows "(case deleteFile (fclose_written (w\<lparr>files := (files w)(t \<mapsto> [])\<rparr>) t written) file_name of
            (FAILURE e, w4) \<Rightarrow> (FAILURE e, snd (deleteFile w4 TEMP_FILE_NAME))
          | (SUCCESS, w4) \<Rightarrow>
              (case wrename w4 TEMP_FILE_NAME file_name of
                 (FAILURE e, w5) \<Rightarrow> (FAILURE e, w5)
               | (SUCCESS, w5) \<Rightarrow> (SUCCESS, w5)))
         = (SUCCESS, w\<lparr>files := ((files w)(t := None))(p \<mapsto> written)\<rparr>)"
proof -
  have "((files w)(t \<mapsto> written, p := None, t := None))(p \<mapsto> written)
        = ((files w)(t := None))(p \<mapsto> written)"
    using assms(1) by (auto simp: fun_eq_iff)
  then show ?thesis
    using assms
    by (simp add: deleteFile_def wrename_def c_remove_def c_rename_def fclose_written_def
        stream_of_def Let_def)
qed

lemma insertLineInFile_valid:
  assumes "files w (resolve w file_name) = Some s"
    and "resolve w file_name \<noteq> resolve w TEMP_FILE_NAME \<and> resolve w TEMP_FILE_NAME \<notin> unwritable w"
    and "1 \<le> line_number" and "line_number \<le> int (count_list s NL)" and "cc0 \<noteq> EOF"
  shows "insertLineInFile w cc0 file_name content line_number =
           (SUCCESS, w\<lparr>files := ((files w)(resolve w TEMP_FILE_NAME := None))
              (resolve w file_name \<mapsto>
                 insertLine_loop content line_number 1 (fgetc s) (tl s) [])\<rparr>)"
  using assms
  by (simp add: insertLineInFile_def openFile_def fopen_def stream_of_def Let_def
      getNumberOfLinesInFile_cases replace_by_scratch)

lemma deleteLineFromFile_valid:
  assumes "files w (resolve w file_name) = Some s"
    and "resolve w file_name \<noteq> resolve w TEMP_FILE_NAME \<and> resolve w TEMP_FILE_NAME \<notin> unwritable w"
    and "1 \<le> line_number" and "line_number \<le> int (count_list s NL)" and "cc0 \<noteq> EOF"
  shows "deleteLineFromFile w cc0 file_name line_number =
           (SUCCESS, w\<lparr>files := ((files w)(resolve w TEMP_FILE_NAME := None))
              (resolve w file_name \<mapsto>
                 deleteLine_loop line_number 1 (fgetc s) (tl s) [])\<rparr>)"
  using assms
  by (simp add: deleteLineFromFile_def openFile_def fopen_def stream_of_def Let_def
      validateLineNumber_def getNumberOfLinesInFile_cases replace_by_scratch)

lemma showLineFromFile_valid:
  assumes "files w (resolve w file_name) = Some s"
    and "1 \<le> line_number" and "line_number \<le> int (count_list s NL)" and "cc0 \<noteq> EOF"
  shows "showLineFromFile w cc0 file_name line_number =
           (SUCCESS, ''Content at line '' @ percent_d line_number @ '':'' @ [NL]
              @ showLine_loop line_number 1 (fgetc s) (tl s) [] @ [NL])"
  using assms
  by (simp add: showLineFromFile_def openFile_def fopen_def stream_of_def Let_def
      validateLineNumber_def getNumberOfLinesInFile_cases)

lemma insertLineInFile_from_line_2:
  assumes "files w (resolve w file_name) = Some (c # pre @ NL # post)"
    and "resolve w file_name \<noteq> resolve w TEMP_FILE_NAME \<and> resolve w TEMP_FILE_NAME \<notin> unwritable w"
    and "2 \<le> line_number" and "count_list pre NL = nat (line_number - 2)"
    and "line_number \<le> int (count_list (c # pre @ NL # post) NL)" and "cc0 \<noteq> EOF"
  shows "insertLineInFile w cc0 file_name content line_number =
           (SUCCESS, w\<lparr>files := ((files w)(resolve w TEMP_FILE_NAME := None))
              (resolve w file_name \<mapsto> c # pre @ NL # content @ NL # post)\<rparr>)"
proof -
  have "insertLine_loop content line_number 1 (of_char c) (pre @ NL # post) [] =
        [] @ c # pre @ NL # content @ NL # post"
    using assms(3,4) by (intro insertLine_loop_before) simp_all
  moreover have "1 \<le> line_number" using assms(3) by simp
  ultimately show ?thesis
    using insertLineInFile_valid [OF assms(1,2) _ assms(5,6), of content]
    by (simp add: fgetc_Cons)
qed

lemma insertLineInFile_first_line:
  assumes "files w (resolve w file_name) = Some (c # rest)"
    and "resolve w file_name \<noteq> resolve w TEMP_FILE_NAME \<and> resolve w TEMP_FILE_NAME \<notin> unwritable w"
    and "1 \<le> int (count_list (c # rest) NL)" and "cc0 \<noteq> EOF"
  shows "insertLineInFile w cc0 file_name content 1 =
           (SUCCESS, w\<lparr>files := ((files w)(resolve w TEMP_FILE_NAME := None))
              (resolve w file_name \<mapsto> content @ NL # rest)\<rparr>)"
proof -
  have "insertLine_loop content 1 1 (of_char c) rest [] = content @ NL # rest"
    by (simp add: insertLine_loop_at_line)
  then show ?thesis
    using insertLineInFile_valid [OF assms(1,2) _ assms(3,4), of content]
    by (simp add: fgetc_Cons)
qed

lemma deleteLineFromFile_from_line_2:
  assumes "files w (resolve w file_name) = Some (c # pre @ NL # mid @ NL # post)"
    and "resolve w file_name \<noteq> resolve w TEMP_FILE_NAME \<and> resolve w TEMP_FILE_NAME \<notin> unwritable w"
    and "2 \<le> line_number" and "count_list pre NL = nat (line_number - 2)"
    and "NL \<notin> set mid" and "cc0 \<noteq> EOF"
  shows "deleteLineFromFile w cc0 file_name line_number =
           (SUCCESS, w\<lparr>files := ((files w)(resolve w TEMP_FILE_NAME := None))
              (resolve w file_name \<mapsto> c # pre @ NL # post)\<rparr>)"
proof -
  have "deleteLine_loop line_number 1 (of_char c) (pre @ NL # mid @ NL # post) [] =
        [] @ c # pre @ NL # post"
    using assms(3,4,5) by (intro deleteLine_loop_before) simp_all
  moreover have "1 \<le> line_number" using assms(3) by simp
  moreover have "line_number \<le> int (count_list (c # pre @ NL # mid @ NL # post) NL)"
    using assms(3,4) by (simp add: count_list_append)
  ultimately show ?thesis
    using deleteLineFromFile_valid [OF assms(1,2) _ _ assms(6), of line_number]
    by (simp add: fgetc_Cons)
qed

lemma deleteLineFromFile_first_line:
  assumes "files w (resolve w file_name) = Some (c # mid @ NL # post)"
    and "resolve w file_name \<noteq> resolve w TEMP_FILE_NAME \<and> resolve w TEMP_FILE_NAME \<notin> unwritable w"
    and "NL \<notin> set mid" and "cc0 \<noteq> EOF"
  shows "deleteLineFromFile w cc0 file_name 1 =
           (SUCCESS, w\<lparr>files := ((files w)(resolve w TEMP_FILE_NAME := None))
              (resolve w file_name \<mapsto> NL # post)\<rparr>)"
proof -
  have "deleteLine_loop 1 1 (of_char c) (mid @ NL # post) [] = [] @ NL # post"
    using assms(3) by (rule deleteLine_loop_at_line)
  moreover have "1 \<le> int (count_list (c # mid @ NL # post) NL)"
    by (simp add: count_list_append)
  ultimately show ?thesis
    using deleteLineFromFile_valid [OF assms(1,2) _ _ assms(4), of 1]
    by (simp add: fgetc_Cons)
qed

lemma showLineFromFile_from_line_2:
  assumes "files w (resolve w file_name) = Some (c # pre @ NL # mid @ NL # post)"
    and "2 \<le> line_number" and "count_list pre NL = nat (line_number - 2)"
    and "NL \<notin> set mid" and "cc0 \<noteq> EOF"
  shows "showLineFromFile w cc0 file_name line_number =
           (SUCCESS, ''Content at line '' @ percent_d line_number @ '':'' @ [NL] @ mid @ [NL])"
proof -
  have "showLine_loop line_number 1 (of_char c) (pre @ NL # mid @ NL # post) [] = [] @ mid"
    using assms(2,3,4) by (intro showLine_loop_before) simp_all
  moreover have "1 \<le> line_number" using assms(2) by simp
  moreover have "line_number \<le> int (count_list (c # pre @ NL # mid @ NL # post) NL)"
    using assms(2,3) by (simp add: count_list_append)
  ultimately show ?thesis
    using showLineFromFile_valid [OF assms(1) _ _ assms(5), of line_number]
    by (simp add: fgetc_Cons)
qed

text \<open>
  From line 2 on, inserting a line without line breaks and deleting the same line number
  restores the file, and the inserted line is what \<open>showLineFromFile\<close> prints there.
\<close>

lemma insert_then_delete_from_line_2:
  assumes "files w (resolve w file_name) = Some (c # pre @ NL # post)"
    and "resolve w file_name \<noteq> resolve w TEMP_FILE_NAME \<and> resolve w TEMP_FILE_NAME \<notin> unwritable w"
    and "2 \<le> line_number" and "count_list pre NL = nat (line_number - 2)"
    and "line_number \<le> int (count_list (c # pre @ NL # post) NL)"
    and "NL \<notin> set content" and "cc0 \<noteq> EOF" and "cc1 \<noteq> EOF"
  shows "deleteLineFromFile (snd (insertLineInFile w cc0 file_name content line_number)) cc1
           file_name line_number
         = (SUCCESS, w\<lparr>files := ((files w)(resolve w TEMP_FILE_NAME := None))
              (resolve w file_name \<mapsto> c # pre @ NL # post)\<rparr>)"
proof -
  let ?w = "w\<lparr>files := ((files w)(resolve w TEMP_FILE_NAME := None))
              (resolve w file_name \<mapsto> c # pre @ NL # content @ NL # post)\<rparr>"
  have i: "snd (insertLineInFile w cc0 file_name content line_number) = ?w"
    using insertLineInFile_from_line_2 [OF assms(1,2,3,4,5,7), of content] by simp
  have f: "files ?w (resolve ?w file_name) = Some (c # pre @ NL # content @ NL # post)"
    by simp
  have a: "resolve ?w file_name \<noteq> resolve ?w TEMP_FILE_NAME
      \<and> resolve ?w TEMP_FILE_NAME \<notin> unwritable ?w"
    using assms(2) by simp
  have "deleteLineFromFile ?w cc1 file_name line_number =
          (SUCCESS, ?w\<lparr>files := ((files ?w)(resolve ?w TEMP_FILE_NAME := None))
              (resolve ?w file_name \<mapsto> c # pre @ NL # post)\<rparr>)"
    using f a assms(3,4,6,8) by (rule deleteLineFromFile_from_line_2)
  then show ?thesis
    using i by simp
qed

lemma insert_then_show_from_line_2:
  assumes "files w (resolve w file_name) = Some (c # pre @ NL # post)"
    and "resolve w file_name \<noteq> resolve w TEMP_FILE_NAME \<and> resolve w TEMP_FILE_NAME \<notin> unwritable w"
    and "2 \<le> line_number" and "count_list pre NL = nat (line_number - 2)"
    and "line_number \<le> int (count_list (c # pre @ NL # post) NL)"
    and "NL \<notin> set content" and "cc0 \<noteq> EOF" and "cc1 \<noteq> EOF"
  shows "showLineFromFile (snd (insertLineInFile w cc0 file_name content line_number)) cc1
           file_name line_number
         = (SUCCESS, ''Content at line '' @ percent_d line_number @ '':'' @ [NL] @ content @ [NL])"
proof -
  let ?w = "w\<lparr>files := ((files w)(resolve w TEMP_FILE_NAME := None))
              (resolve w file_name \<mapsto> c # pre @ NL # content @ NL # post)\<rparr>"
  have i: "snd (insertLineInFile w cc0 file_name content line_number) = ?w"
    using insertLineInFile_from_line_2 [OF assms(1,2,3,4,5,7), of content] by simp
  have f: "files ?w (resolve ?w file_name) = Some (c # pre @ NL # content @ NL # post)"
    by simp
  have "showLineFromFile ?w cc1 file_name line_number =
          (SUCCESS, ''Content at line '' @ percent_d line_number @ '':'' @ [NL] @ content @ [NL])"
    using f assms(3,4,6,8) by (rule showLineFromFile_from_line_2)
  then show ?thesis
    using i by simp
qed

subsection \<open>Inserting and deleting at line 1\<close>

text \<open>
  C1. The claim says that after \<open>insertLineInFile(file, content, n)\<close> the content is line
  \<open>n\<close>, the line that was at \<open>n\<close> is at \<open>n + 1\<close>, and copying resumes at the first
  character of the old line \<open>n\<close>. From line 2 on the code does that
  (\<open>insertLineInFile_from_line_2\<close>, \<open>insert_then_show_from_line_2\<close>). At line 1 the branch
  that writes the content does not write \<open>current_character\<close>, the first character of the
  file, and the next \<open>fgetc\<close> replaces it (\<open>insertLineInFile_first_line\<close>): inserting \<open>C\<close>
  at line 1 of a file holding the lines \<open>x\<close>, \<open>y\<close> gives the lines \<open>C\<close>, an empty line,
  \<open>y\<close>. The \<open>x\<close> is lost, and \<open>showLineFromFile\<close> at line 2 prints an empty line.
\<close>

theorem insertLineInFile_at_line_1_drops_first_character:
  "fst (insertLineInFile \<lparr>cwd = ''/d'', files = [''/d/a.txt'' \<mapsto> ''x\<newline>y\<newline>''], unwritable = {}\<rparr>
          0 ''a.txt'' ''C'' 1) = SUCCESS
   \<and> files (snd (insertLineInFile \<lparr>cwd = ''/d'', files = [''/d/a.txt'' \<mapsto> ''x\<newline>y\<newline>''], unwritable = {}\<rparr>
                   0 ''a.txt'' ''C'' 1)) ''/d/a.txt''
       = Some ''C\<newline>\<newline>y\<newline>''
   \<and> showLineFromFile
         (snd (insertLineInFile \<lparr>cwd = ''/d'', files = [''/d/a.txt'' \<mapsto> ''x\<newline>y\<newline>''], unwritable = {}\<rparr>
                 0 ''a.txt'' ''C'' 1)) 0 ''a.txt'' 2
       = (SUCCESS, ''Content at line 2:\<newline>\<newline>'')"
  by code_simp

text \<open>
  C2. The claim says that \<open>insertLineInFile(f, c, n)\<close> followed by
  \<open>deleteLineFromFile(f, n)\<close> restores the file. From line 2 on it does, for a content
  without line breaks (\<open>insert_then_delete_from_line_2\<close>). At line 1 it does not: from
  the lines \<open>x\<close>, \<open>y\<close> the two calls succeed and leave two empty lines and \<open>y\<close>.
\<close>

theorem insert_then_delete_at_line_1_not_identity:
  "fst (insertLineInFile \<lparr>cwd = ''/d'', files = [''/d/a.txt'' \<mapsto> ''x\<newline>y\<newline>''], unwritable = {}\<rparr>
          0 ''a.txt'' ''C'' 1) = SUCCESS
   \<and> fst (deleteLineFromFile
            (snd (insertLineInFile \<lparr>cwd = ''/d'', files = [''/d/a.txt'' \<mapsto> ''x\<newline>y\<newline>''], unwritable = {}\<rparr>
                    0 ''a.txt'' ''C'' 1)) 0 ''a.txt'' 1) = SUCCESS
   \<and> files (snd (deleteLineFromFile
            (snd (insertLineInFile \<lparr>cwd = ''/d'', files = [''/d/a.txt'' \<mapsto> ''x\<newline>y\<newline>''], unwritable = {}\<rparr>
                    0 ''a.txt'' ''C'' 1)) 0 ''a.txt'' 1)) ''/d/a.txt''
       = Some ''\<newline>\<newline>y\<newline>''"
  by code_simp

text \<open>
  C3. The claim says that \<open>deleteLineFromFile(f, n)\<close> leaves one line less and removes
  the line with its line break. From line 2 on the code removes the line break before the
  line and the line, which comes to the same file (\<open>deleteLineFromFile_from_line_2\<close>). At
  line 1 there is no line break before the line: the loop skips the characters before the
  first line break and copies the line break itself (\<open>deleteLineFromFile_first_line\<close>). From
  the lines \<open>x\<close>, \<open>y\<close>, \<open>z\<close> it leaves an empty line, \<open>y\<close>, \<open>z\<close>, which
  \<open>getNumberOfLinesInFile\<close> still counts as 3 lines. At line 2 the same file becomes
  \<open>x\<close>, \<open>z\<close>, as the claim's example says.
\<close>

theorem deleteLineFromFile_at_line_1_keeps_line_break:
  "fst (deleteLineFromFile
          \<lparr>cwd = ''/d'', files = [''/d/a.txt'' \<mapsto> ''x\<newline>y\<newline>z\<newline>''], unwritable = {}\<rparr> 0 ''a.txt'' 1) = SUCCESS
   \<and> files (snd (deleteLineFromFile
         \<lparr>cwd = ''/d'', files = [''/d/a.txt'' \<mapsto> ''x\<newline>y\<newline>z\<newline>''], unwritable = {}\<rparr> 0 ''a.txt'' 1)) ''/d/a.txt''
       = Some ''\<newline>y\<newline>z\<newline>''
   \<and> getNumberOfLinesInFile 0 ''x\<newline>y\<newline>z\<newline>'' = 3
   \<and> getNumberOfLinesInFile 0 ''\<newline>y\<newline>z\<newline>'' = 3
   \<and> files (snd (deleteLineFromFile
         \<lparr>cwd = ''/d'', files = [''/d/a.txt'' \<mapsto> ''x\<newline>y\<newline>z\<newline>''], unwritable = {}\<rparr> 0 ''a.txt'' 2)) ''/d/a.txt''
       = Some ''x\<newline>z\<newline>''"
  by code_simp

subsection \<open>Order of the steps of a rewrite\<close>

text \<open>
  C4. The claim says that both rewrite operations validate the line number before they
  open the scratch file, so that a failed validation changes nothing on disk.
  \<open>insertLineInFile\<close> does (\<open>insertLineInFile_out_of_range\<close>); \<open>deleteLineFromFile\<close> opens
  \<open>file.tmp\<close> for writing before it validates (\<open>deleteLineFromFile_out_of_range\<close>): with
  line number 5 on a one-line file it fails with \<open>LineOutOfRange\<close> and leaves \<open>file.tmp\<close>
  empty, whether the file existed (and held data) or not.
\<close>

theorem deleteLineFromFile_opens_scratch_before_validation:
  "fst (deleteLineFromFile
          \<lparr>cwd = ''/d'', files = [''/d/a.txt'' \<mapsto> ''x\<newline>'', ''/d/file.tmp'' \<mapsto> ''keep''], unwritable = {}\<rparr>
          0 ''a.txt'' 5) = FAILURE LineOutOfRange
   \<and> files (snd (deleteLineFromFile
          \<lparr>cwd = ''/d'', files = [''/d/a.txt'' \<mapsto> ''x\<newline>'', ''/d/file.tmp'' \<mapsto> ''keep''], unwritable = {}\<rparr>
          0 ''a.txt'' 5)) ''/d/file.tmp'' = Some []
   \<and> files (snd (deleteLineFromFile
          \<lparr>cwd = ''/d'', files = [''/d/a.txt'' \<mapsto> ''x\<newline>''], unwritable = {}\<rparr> 0 ''a.txt'' 5)) ''/d/file.tmp''
       = Some []
   \<and> fst (insertLineInFile
          \<lparr>cwd = ''/d'', files = [''/d/a.txt'' \<mapsto> ''x\<newline>'', ''/d/file.tmp'' \<mapsto> ''keep''], unwritable = {}\<rparr>
          0 ''a.txt'' ''C'' 5) = FAILURE LineOutOfRange
   \<and> files (snd (insertLineInFile
          \<lparr>cwd = ''/d'', files = [''/d/a.txt'' \<mapsto> ''x\<newline>'', ''/d/file.tmp'' \<mapsto> ''keep''], unwritable = {}\<rparr>
          0 ''a.txt'' ''C'' 5)) ''/d/file.tmp'' = Some ''keep''"
  by code_simp

subsection \<open>Copying a file\<close>

lemma copyFile_destination_exists:
  "files w (resolve w new_file_name) = Some d \<Longrightarrow>
   copyFile w mem source_file_name new_file_name = (FAILURE AlreadyExists, w)"
  by (simp add: copyFile_def fileExists_def)

lemma copyFile_source_missing:
  "files w (resolve w new_file_name) = None \<Longrightarrow>
   files w (resolve w source_file_name) = None \<Longrightarrow>
   copyFile w mem source_file_name new_file_name = (FAILURE NotFound, w)"
  by (simp add: copyFile_def fileExists_def openFile_def fopen_def)

lemma copyFile_writes_percent_s:
  assumes "files w (resolve w new_file_name) = None"
    and "files w (resolve w source_file_name) = Some s"
    and "resolve w new_file_name \<notin> unwritable w"
  shows "copyFile w mem source_file_name new_file_name =
           (SUCCESS, w\<lparr>files := (files w)(resolve w new_file_name \<mapsto> percent_s s mem)\<rparr>)"
proof -
  have "resolve w new_file_name \<noteq> resolve w source_file_name"
    using assms(1,2) by auto
  then show ?thesis
    using assms
    by (simp add: copyFile_def createFile_def fileExists_def openFile_def fopen_def
        fclose_written_def stream_of_def getFileContents_def Let_def)
qed

lemma percent_s_terminated:
  "NUL \<notin> set s \<Longrightarrow> percent_s s (NUL # mem) = s"
  by (induction s) (auto simp: percent_s_def)

text \<open>
  C8. The claim says that the copy has exactly the bytes of the source. The failure cases
  are as the claim says (\<open>copyFile_destination_exists\<close>, \<open>copyFile_source_missing\<close>), but
  \<open>copyFile\<close> writes the buffer of \<open>getFileContents\<close> with
  \<open>fprintf(new_file, "%s", file_contents)\<close> (\<open>copyFile_writes_percent_s\<close>): a source
  holding \<open>a\<close>, a zero byte and \<open>b\<close> is copied as \<open>a\<close>, and since the buffer has no
  terminating zero byte, a source holding \<open>hi\<close> whose buffer is followed in memory by \<open>Z\<close>
  and a zero byte is copied as \<open>hiZ\<close>. The copy is exact only for a source without zero
  bytes whose buffer happens to be followed by one (\<open>percent_s_terminated\<close>).
\<close>

theorem copyFile_stops_at_zero_byte:
  "fst (copyFile \<lparr>cwd = ''/d'', files = [''/d/a.bin'' \<mapsto> [CHR ''a'', CHR 0x00, CHR ''b'']], unwritable = {}\<rparr>
          [CHR 0x00] ''a.bin'' ''b.bin'') = SUCCESS
   \<and> files (snd (copyFile
          \<lparr>cwd = ''/d'', files = [''/d/a.bin'' \<mapsto> [CHR ''a'', CHR 0x00, CHR ''b'']], unwritable = {}\<rparr>
          [CHR 0x00] ''a.bin'' ''b.bin'')) ''/d/b.bin'' = Some ''a''
   \<and> files (snd (copyFile \<lparr>cwd = ''/d'', files = [''/d/a.txt'' \<mapsto> ''hi''], unwritable = {}\<rparr>
          [CHR ''Z'', CHR 0x00] ''a.txt'' ''b.txt'')) ''/d/b.txt'' = Some ''hiZ''"
  by code_simp

end
